theory Spec2Isabelle
  imports Main
begin

section \<open>Values of the host language\<close>

text \<open>
  The proxy of \<^verbatim>\<open>src/server.js\<close> is embedded as pure functions over an explicit
  token cache. Strings are byte lists holding well-formed UTF-8 text. Timestamps
  (epoch milliseconds) and lifetimes (seconds) are mathematical integers, and the
  rounding of binary64 arithmetic on them is not tracked. What \<^verbatim>\<open>parseInt\<close> returns is
  a \<open>jsnum\<close>: the binary64 number nearest to the integer read, an infinity, or
  \<^verbatim>\<open>NaN\<close>. A value that is \<^verbatim>\<open>undefined\<close> in the program is \<open>None\<close>.
\<close>

datatype json =
    JNull
  | JBool bool
  | JNum int
  | JStr string
  | JArr "json list"
  | JObj "(string \<times> json) list"

text \<open>Truthiness, as the operators \<^verbatim>\<open>||\<close>, \<^verbatim>\<open>&&\<close> and \<^verbatim>\<open>!\<close> read a value.\<close>

fun truthy :: "json \<Rightarrow> bool" where
  "truthy JNull = False"
| "truthy (JBool b) = b"
| "truthy (JNum n) = (n \<noteq> 0)"
| "truthy (JStr s) = (s \<noteq> [])"
| "truthy (JArr xs) = True"
| "truthy (JObj kvs) = True"

definition truthy_str :: "string option \<Rightarrow> bool" where
  "truthy_str v = (case v of None \<Rightarrow> False | Some s \<Rightarrow> s \<noteq> [])"

text \<open>A value spliced into a template literal.\<close>

definition template_str :: "string option \<Rightarrow> string" where
  "template_str v = (case v of None \<Rightarrow> ''undefined'' | Some s \<Rightarrow> s)"

text \<open>
  A value of \<^verbatim>\<open>req.query\<close>: a string, or, for a repeated or bracketed key, an array
  or an object of such values.
\<close>

datatype qval =
    QStr string
  | QArr "qval list"
  | QObj "(string \<times> qval) list"

text \<open>The conversion to a string that \<^verbatim>\<open>parseInt\<close> applies to its argument first.\<close>

fun to_string :: "qval \<Rightarrow> string" and join_comma :: "qval list \<Rightarrow> string" where
  "to_string (QStr s) = s"
| "to_string (QArr vs) = join_comma vs"
| "to_string (QObj kvs) = ''[object Object]''"
| "join_comma [] = []"
| "join_comma [v] = to_string v"
| "join_comma (v # w # vs) = to_string v @ '','' @ join_comma (w # vs)"

subsection \<open>White space, \<^verbatim>\<open>String.prototype.trim\<close> and \<^verbatim>\<open>parseInt\<close>\<close>

text \<open>
  The white space and line terminator code points of the language, each as its UTF-8
  byte sequence: U+0009 to U+000D, U+0020, U+00A0, U+1680, U+2000 to U+200A, U+2028,
  U+2029, U+202F, U+205F, U+3000 and U+FEFF.
\<close>

definition ws_seqs :: "string list" where
  "ws_seqs =
    [[CHR 0x09], [CHR 0x0A], [CHR 0x0B], [CHR 0x0C], [CHR 0x0D], [CHR 0x20],
     [CHR 0xC2, CHR 0xA0],
     [CHR 0xE1, CHR 0x9A, CHR 0x80],
     [CHR 0xE2, CHR 0x80, CHR 0x80], [CHR 0xE2, CHR 0x80, CHR 0x81],
     [CHR 0xE2, CHR 0x80, CHR 0x82], [CHR 0xE2, CHR 0x80, CHR 0x83],
     [CHR 0xE2, CHR 0x80, CHR 0x84], [CHR 0xE2, CHR 0x80, CHR 0x85],
     [CHR 0xE2, CHR 0x80, CHR 0x86], [CHR 0xE2, CHR 0x80, CHR 0x87],
     [CHR 0xE2, CHR 0x80, CHR 0x88], [CHR 0xE2, CHR 0x80, CHR 0x89],
     [CHR 0xE2, CHR 0x80, CHR 0x8A],
     [CHR 0xE2, CHR 0x80, CHR 0xA8], [CHR 0xE2, CHR 0x80, CHR 0xA9],
     [CHR 0xE2, CHR 0x80, CHR 0xAF],
     [CHR 0xE2, CHR 0x81, CHR 0x9F],
     [CHR 0xE3, CHR 0x80, CHR 0x80],
     [CHR 0xEF, CHR 0xBB, CHR 0xBF]]"

text \<open>The byte length of the white space code point a string starts (ends) with; 0 if none.\<close>

definition ws_len_start :: "string \<Rightarrow> nat" where
  "ws_len_start s =
     (case find (\<lambda>t. take (length t) s = t) ws_seqs of None \<Rightarrow> 0 | Some t \<Rightarrow> length t)"

definition ws_len_end :: "string \<Rightarrow> nat" where
  "ws_len_end s =
     (case find (\<lambda>t. length t \<le> length s \<and> drop (length s - length t) s = t) ws_seqs of
        None \<Rightarrow> 0 | Some t \<Rightarrow> length t)"

fun trimStart :: "string \<Rightarrow> string" where
  "trimStart s =
     (if s = [] \<or> ws_len_start s = 0 then s else trimStart (drop (ws_len_start s) s))"

fun trimEnd :: "string \<Rightarrow> string" where
  "trimEnd s =
     (if s = [] \<or> ws_len_end s = 0 then s else trimEnd (take (length s - ws_len_end s) s))"

definition trim :: "string \<Rightarrow> string" where
  "trim s = trimEnd (trimStart s)"

text \<open>The value of a character as a digit; 36 for a character that is no digit in any radix.\<close>

definition digit_val :: "char \<Rightarrow> nat" where
  "digit_val c =
     (let n = of_char c in
      if 48 \<le> n \<and> n \<le> 57 then n - 48
      else if 97 \<le> n \<and> n \<le> 122 then n - 87
      else if 65 \<le> n \<and> n \<le> 90 then n - 55
      else (36::nat))"

definition digits_value :: "nat \<Rightarrow> string \<Rightarrow> int" where
  "digits_value radix ds = foldl (\<lambda>acc c. acc * int radix + int (digit_val c)) 0 ds"

text \<open>
  A number of the language that \<^verbatim>\<open>parseInt\<close> can return. \<open>Number n\<close> is the binary64
  number whose value is the integer \<open>n\<close>; zero stands for both of its signs.
\<close>

datatype jsnum = NaN | Number int | PosInfinity | NegInfinity

fun bit_length :: "nat \<Rightarrow> nat" where
  "bit_length n = (if n = 0 then 0 else Suc (bit_length (n div 2)))"

text \<open>
  The binary64 number nearest to an integer, ties to the even significand: the 53
  leading bits are kept, the rest rounds them, and a magnitude that reaches
  \<open>2 ^ 1024\<close> after rounding is an infinity.
\<close>

definition to_binary64 :: "int \<Rightarrow> jsnum" where
  "to_binary64 n =
     (let m = nat \<bar>n\<bar>;
          e = bit_length m - 53;
          q = m div 2 ^ e;
          r = m mod 2 ^ e;
          q' = (if 2 * r > 2 ^ e \<or> (2 * r = 2 ^ e \<and> odd q) then q + 1 else q);
          v = q' * 2 ^ e
      in if v \<ge> 2 ^ 1024 then (if n < 0 then NegInfinity else PosInfinity)
         else Number (if n < 0 then - int v else int v))"

text \<open>
  \<^verbatim>\<open>parseInt(s)\<close> with no radix argument: leading white space is skipped, a sign
  is read, a prefix \<^verbatim>\<open>0x\<close> or \<^verbatim>\<open>0X\<close> selects radix 16, and the longest run of
  digits is converted to the nearest binary64 number; with no digit the result is
  \<^verbatim>\<open>NaN\<close>.
\<close>

definition parseInt :: "string \<Rightarrow> jsnum" where
  "parseInt inputString =
     (let s0 = trimStart inputString;
          sign = (if take 1 s0 = ''-'' then - 1 else (1::int));
          s1 = (if take 1 s0 = ''-'' \<or> take 1 s0 = ''+'' then drop 1 s0 else s0);
          hex = (take 2 s1 = ''0x'' \<or> take 2 s1 = ''0X'');
          radix = (if hex then 16 else (10::nat));
          s2 = (if hex then drop 2 s1 else s1);
          z = takeWhile (\<lambda>c. digit_val c < radix) s2
      in if z = [] then NaN else to_binary64 (sign * digits_value radix z))"

subsection \<open>Base64, as \<^verbatim>\<open>Buffer.from(s).toString('base64')\<close>\<close>

definition b64_alphabet :: string where
  "b64_alphabet = ''ABCDEFGHIJKLMNOPQRSTUVWXYZabcdefghijklmnopqrstuvwxyz0123456789+/''"

definition b64_char :: "nat \<Rightarrow> char" where
  "b64_char n = b64_alphabet ! (n mod 64)"

fun b64_bytes :: "nat list \<Rightarrow> string" where
  "b64_bytes [] = []"
| "b64_bytes [a] =
     [b64_char (a div 4), b64_char ((a mod 4) * 16), CHR ''='', CHR ''='']"
| "b64_bytes [a, b] =
     [b64_char (a div 4), b64_char ((a mod 4) * 16 + b div 16),
      b64_char ((b mod 16) * 4), CHR ''='']"
| "b64_bytes (a # b # c # rest) =
     [b64_char (a div 4), b64_char ((a mod 4) * 16 + b div 16),
      b64_char ((b mod 16) * 4 + c div 64), b64_char (c mod 64)] @ b64_bytes rest"

definition base64 :: "string \<Rightarrow> string" where
  "base64 s = b64_bytes (map of_char s)"

section \<open>Process configuration\<close>

text \<open>The variables the program reads from \<^verbatim>\<open>process.env\<close>; an unset variable is \<open>None\<close>.\<close>

record process_env =
  ENV_EBAY_API_ENV :: "string option"
  ENV_EBAY_PRODUCTION_CLIENT_ID :: "string option"
  ENV_EBAY_SANDBOX_CLIENT_ID :: "string option"
  ENV_EBAY_PRODUCTION_CLIENT_SECRET :: "string option"
  ENV_EBAY_SANDBOX_CLIENT_SECRET :: "string option"
  ENV_EBAY_MARKETPLACE_ID :: "string option"

definition isProduction :: "process_env \<Rightarrow> bool" where
  "isProduction env = (ENV_EBAY_API_ENV env = Some ''production'')"

definition EBAY_API_BASE_URL :: "process_env \<Rightarrow> string" where
  "EBAY_API_BASE_URL env =
     (if isProduction env then ''https://api.ebay.com'' else ''https://api.sandbox.ebay.com'')"

definition EBAY_IDENTITY_URL :: "process_env \<Rightarrow> string" where
  "EBAY_IDENTITY_URL env = EBAY_API_BASE_URL env @ ''/identity/v1/oauth2/token''"

definition EBAY_BROWSE_URL :: "process_env \<Rightarrow> string" where
  "EBAY_BROWSE_URL env = EBAY_API_BASE_URL env @ ''/buy/browse/v1''"

definition EBAY_CLIENT_ID :: "process_env \<Rightarrow> string option" where
  "EBAY_CLIENT_ID env =
     (if isProduction env then ENV_EBAY_PRODUCTION_CLIENT_ID env
      else ENV_EBAY_SANDBOX_CLIENT_ID env)"

definition EBAY_CLIENT_SECRET :: "process_env \<Rightarrow> string option" where
  "EBAY_CLIENT_SECRET env =
     (if isProduction env then ENV_EBAY_PRODUCTION_CLIENT_SECRET env
      else ENV_EBAY_SANDBOX_CLIENT_SECRET env)"

definition CLOTHING_CATEGORY_ID :: string where
  "CLOTHING_CATEGORY_ID = ''11450''"

definition env_label :: "process_env \<Rightarrow> string" where
  "env_label env = (if isProduction env then ''Production'' else ''Sandbox'')"

definition marketplace_id :: "process_env \<Rightarrow> string" where
  "marketplace_id env =
     (if truthy_str (ENV_EBAY_MARKETPLACE_ID env) then template_str (ENV_EBAY_MARKETPLACE_ID env)
      else ''EBAY-US'')"

section \<open>Outbound requests and their outcomes\<close>

record searchParams =
  sp_limit :: jsnum
  sp_offset :: jsnum
  sp_q :: "string option"
  sp_category_ids :: qval

record http_request =
  rq_method :: string
  rq_url :: string
  rq_headers :: "(string \<times> string) list"
  rq_body :: "string option"
  rq_params :: "searchParams option"

text \<open>
  An error value as the handlers read it: \<^verbatim>\<open>error.response\<close> (present when the
  HTTP client got a response outside 2xx, absent on a transport failure and on every
  error the program itself creates with \<^verbatim>\<open>new Error\<close>) and \<^verbatim>\<open>error.message\<close>.
\<close>

record error_response =
  resp_status :: nat
  resp_data :: json

datatype js_error = Error (err_response: "error_response option") (err_message: string)

datatype 'a axios_result = Resolved 'a | Rejected js_error

text \<open>
  The body of a 2xx answer of the identity endpoint, with the two fields the program
  reads: a string \<^verbatim>\<open>access_token\<close> and the lifetime \<^verbatim>\<open>expires_in\<close> in seconds, a
  number. A 2xx answer with another body is not modelled. Whatever makes the
  \<^verbatim>\<open>try\<close> block of \<^verbatim>\<open>getEbayToken\<close> throw is a \<open>Rejected\<close> outcome.
\<close>

record identity_data =
  access_token :: string
  expires_in :: int

type_synonym identity_endpoint = "http_request \<Rightarrow> identity_data axios_result"
type_synonym browse_endpoint = "http_request \<Rightarrow> json axios_result"

section \<open>The token cache and \<^verbatim>\<open>getEbayToken\<close>\<close>

record token_cache =
  ebayToken :: "string option"
  tokenExpiryTime :: int

definition initial_cache :: token_cache where
  "initial_cache = \<lparr>ebayToken = None, tokenExpiryTime = 0\<rparr>"

definition tokenBufferSeconds :: int where
  "tokenBufferSeconds = 300"

text \<open>
  What one invocation does: the value returned or the error thrown, the cache it leaves,
  and the outbound requests it made, in order.
\<close>

record 'a outcome =
  returned :: 'a
  cache_after :: token_cache
  calls :: "http_request list"

definition identity_request :: "process_env \<Rightarrow> http_request" where
  "identity_request env =
     (let credentials =
            base64 (template_str (EBAY_CLIENT_ID env) @ '':'' @ template_str (EBAY_CLIENT_SECRET env))
      in \<lparr>rq_method = ''POST'',
          rq_url = EBAY_IDENTITY_URL env,
          rq_headers = [(''Content-Type'', ''application/x-www-form-urlencoded''),
                        (''Authorization'', ''Basic '' @ credentials)],
          rq_body = Some ''grant_type=client_credentials&scope=https://api.ebay.com/oauth/api_scope'',
          rq_params = None\<rparr>)"

text \<open>Lines 55 to 91: the path taken when the cache check of line 50 fails.\<close>

definition requestNewToken ::
  "process_env \<Rightarrow> identity_endpoint \<Rightarrow> token_cache \<Rightarrow> int \<Rightarrow> (js_error + string) outcome" where
  "requestNewToken env idp c now =
     (if \<not> truthy_str (EBAY_CLIENT_ID env) \<or> \<not> truthy_str (EBAY_CLIENT_SECRET env) then
        \<lparr>returned =
           Inl (Error None ''Credenziali eBay non configurate sul server per l'ambiente corrente.''),
         cache_after = c, calls = []\<rparr>
      else
        (case idp (identity_request env) of
           Resolved d \<Rightarrow>
             \<lparr>returned = Inr (access_token d),
              cache_after =
                \<lparr>ebayToken = Some (access_token d),
                 tokenExpiryTime = now + expires_in d * 1000\<rparr>,
              calls = [identity_request env]\<rparr>
         | Rejected error \<Rightarrow>
             \<lparr>returned =
                Inl (Error None
                  (''Impossibile ottenere il token di accesso eBay per '' @ env_label env
                     @ ''. Dettagli: '' @ err_message error)),
              cache_after = \<lparr>ebayToken = None, tokenExpiryTime = 0\<rparr>,
              calls = [identity_request env]\<rparr>))"

definition getEbayToken ::
  "process_env \<Rightarrow> identity_endpoint \<Rightarrow> token_cache \<Rightarrow> int \<Rightarrow> (js_error + string) outcome" where
  "getEbayToken env idp c now =
     (case ebayToken c of
        None \<Rightarrow> requestNewToken env idp c now
      | Some tok \<Rightarrow>
          if tok \<noteq> [] \<and> tokenExpiryTime c > now + tokenBufferSeconds * 1000
          then \<lparr>returned = Inr tok, cache_after = c, calls = []\<rparr>
          else requestNewToken env idp c now)"

section \<open>The two request handlers\<close>

record http_response =
  res_status :: nat
  res_body :: json

text \<open>The \<^verbatim>\<open>catch\<close> block the two handlers share, up to the generic message.\<close>

definition error_reply :: "string \<Rightarrow> js_error \<Rightarrow> http_response" where
  "error_reply msg error =
     \<lparr>res_status =
        (case err_response error of
           None \<Rightarrow> 500
         | Some r \<Rightarrow> if resp_status r \<noteq> 0 then resp_status r else 500),
      res_body =
        JObj [(''message'', JStr msg),
              (''details'',
                 (case err_response error of
                    None \<Rightarrow> JStr (err_message error)
                  | Some r \<Rightarrow> if truthy (resp_data r) then resp_data r
                              else JStr (err_message error)))]\<rparr>"

definition browse_headers :: "process_env \<Rightarrow> string \<Rightarrow> (string \<times> string) list" where
  "browse_headers env token =
     [(''Authorization'', ''Bearer '' @ token),
      (''X-EBAY-C-MARKETPLACE-ID'', marketplace_id env)]"

text \<open>
  The four values line 97 takes from the query, for a query whose \<^verbatim>\<open>q\<close> is a string
  or absent: \<^verbatim>\<open>limit\<close> and \<^verbatim>\<open>offset\<close> as the strings \<^verbatim>\<open>parseInt\<close> converts them to,
  \<^verbatim>\<open>category\<close> as it came. \<open>search_handler\<close> is the callback of line 95 on such a
  query; \<open>search_route\<close> below is the callback on any query.
\<close>

record search_query =
  qry_q :: "string option"
  qry_limit :: "string option"
  qry_offset :: "string option"
  qry_category :: "qval option"

definition make_searchParams :: "search_query \<Rightarrow> searchParams" where
  "make_searchParams qry =
     (let q = (case qry_q qry of None \<Rightarrow> [] | Some s \<Rightarrow> s);
          limit = (case qry_limit qry of None \<Rightarrow> ''20'' | Some s \<Rightarrow> s);
          offset = (case qry_offset qry of None \<Rightarrow> ''0'' | Some s \<Rightarrow> s);
          category = (case qry_category qry of None \<Rightarrow> QStr CLOTHING_CATEGORY_ID | Some v \<Rightarrow> v)
      in \<lparr>sp_limit = parseInt limit,
          sp_offset = parseInt offset,
          sp_q = (if q \<noteq> [] \<and> trim q \<noteq> [] then Some (trim q) else None),
          sp_category_ids = category\<rparr>)"

definition search_request :: "process_env \<Rightarrow> string \<Rightarrow> searchParams \<Rightarrow> http_request" where
  "search_request env token params =
     \<lparr>rq_method = ''GET'',
      rq_url = EBAY_BROWSE_URL env @ ''/item_summary/search'',
      rq_headers = browse_headers env token,
      rq_body = None,
      rq_params = Some params\<rparr>"

definition search_message :: string where
  "search_message = ''Errore durante la comunicazione con l'API di eBay.''"

definition search_handler ::
  "process_env \<Rightarrow> identity_endpoint \<Rightarrow> browse_endpoint \<Rightarrow> token_cache \<Rightarrow> int \<Rightarrow> search_query
     \<Rightarrow> http_response outcome" where
  "search_handler env idp browse c now qry =
     (let params = make_searchParams qry;
          t = getEbayToken env idp c now
      in case returned t of
           Inl error \<Rightarrow>
             \<lparr>returned = error_reply search_message error,
              cache_after = cache_after t, calls = calls t\<rparr>
         | Inr token \<Rightarrow>
             (case browse (search_request env token params) of
                Resolved body \<Rightarrow>
                  \<lparr>returned = \<lparr>res_status = 200, res_body = body\<rparr>,
                   cache_after = cache_after t,
                   calls = calls t @ [search_request env token params]\<rparr>
              | Rejected error \<Rightarrow>
                  \<lparr>returned = error_reply search_message error,
                   cache_after = cache_after t,
                   calls = calls t @ [search_request env token params]\<rparr>))"

text \<open>
  The query as the router hands it over. A \<^verbatim>\<open>q\<close> that is an array or an object is
  truthy and has no \<^verbatim>\<open>trim\<close> method: line 106 throws, before the \<^verbatim>\<open>try\<close> block, and
  the callback sends no reply.
\<close>

record req_query =
  req_q :: "qval option"
  req_limit :: "qval option"
  req_offset :: "qval option"
  req_category :: "qval option"

definition destructured :: "req_query \<Rightarrow> js_error + search_query" where
  "destructured rq =
     (let limit = map_option to_string (req_limit rq);
          offset = map_option to_string (req_offset rq)
      in case req_q rq of
           None \<Rightarrow>
             Inr \<lparr>qry_q = None, qry_limit = limit, qry_offset = offset,
                  qry_category = req_category rq\<rparr>
         | Some (QStr s) \<Rightarrow>
             Inr \<lparr>qry_q = Some s, qry_limit = limit, qry_offset = offset,
                  qry_category = req_category rq\<rparr>
         | Some (QArr vs) \<Rightarrow> Inl (Error None ''q.trim is not a function'')
         | Some (QObj kvs) \<Rightarrow> Inl (Error None ''q.trim is not a function''))"

datatype handler_result = Replied http_response | Threw js_error

definition search_route ::
  "process_env \<Rightarrow> identity_endpoint \<Rightarrow> browse_endpoint \<Rightarrow> token_cache \<Rightarrow> int \<Rightarrow> req_query
     \<Rightarrow> handler_result outcome" where
  "search_route env idp browse c now rq =
     (case destructured rq of
        Inl error \<Rightarrow> \<lparr>returned = Threw error, cache_after = c, calls = []\<rparr>
      | Inr qry \<Rightarrow>
          \<lparr>returned = Replied (returned (search_handler env idp browse c now qry)),
           cache_after = cache_after (search_handler env idp browse c now qry),
           calls = calls (search_handler env idp browse c now qry)\<rparr>)"

definition item_request :: "process_env \<Rightarrow> string \<Rightarrow> string \<Rightarrow> http_request" where
  "item_request env token itemId =
     \<lparr>rq_method = ''GET'',
      rq_url = EBAY_BROWSE_URL env @ ''/item/'' @ itemId,
      rq_headers = browse_headers env token,
      rq_body = None,
      rq_params = None\<rparr>"

definition item_message :: string where
  "item_message =
     ''Errore durante la comunicazione con l'API di eBay per i dettagli dell'oggetto.''"

definition item_handler ::
  "process_env \<Rightarrow> identity_endpoint \<Rightarrow> browse_endpoint \<Rightarrow> token_cache \<Rightarrow> int \<Rightarrow> string option
     \<Rightarrow> http_response outcome" where
  "item_handler env idp browse c now itemId =
     (if \<not> truthy_str itemId then
        \<lparr>returned =
           \<lparr>res_status = 400,
            res_body = JObj [(''error'', JStr ''eBay Item ID mancante nell'URL.'')]\<rparr>,
         cache_after = c, calls = []\<rparr>
      else
        (let t = getEbayToken env idp c now
         in case returned t of
              Inl error \<Rightarrow>
                \<lparr>returned = error_reply item_message error,
                 cache_after = cache_after t, calls = calls t\<rparr>
            | Inr token \<Rightarrow>
                (case browse (item_request env token (template_str itemId)) of
                   Resolved body \<Rightarrow>
                     \<lparr>returned = \<lparr>res_status = 200, res_body = body\<rparr>,
                      cache_after = cache_after t,
                      calls = calls t @ [item_request env token (template_str itemId)]\<rparr>
                 | Rejected error \<Rightarrow>
                     \<lparr>returned = error_reply item_message error,
                      cache_after = cache_after t,
                      calls = calls t @ [item_request env token (template_str itemId)]\<rparr>)))"

section \<open>The cache states a process can be in\<close>

text \<open>
  The cache starts empty, and only \<^verbatim>\<open>getEbayToken\<close> writes it: called once when the
  server starts listening, and once by each handler invocation that gets past its
  checks. The configuration is fixed for the life of the process. Invocations are
  taken one after the other.
\<close>

inductive reachable :: "process_env \<Rightarrow> token_cache \<Rightarrow> bool" for env :: process_env where
  reachable_init: "reachable env initial_cache"
| reachable_token: "reachable env c \<Longrightarrow> reachable env (cache_after (getEbayToken env idp c now))"
| reachable_search:
    "reachable env c \<Longrightarrow> reachable env (cache_after (search_handler env idp browse c now qry))"
| reachable_item:
    "reachable env c \<Longrightarrow> reachable env (cache_after (item_handler env idp browse c now itemId))"

section \<open>Decimal numerals\<close>

text \<open>A non-empty string of the digits 0 to 9.\<close>

definition is_decimal :: "string \<Rightarrow> bool" where
  "is_decimal s = (s \<noteq> [] \<and> list_all (\<lambda>c. 48 \<le> (of_char c :: nat) \<and> (of_char c :: nat) \<le> 57) s)"

section \<open>Example configurations, endpoints and requests\<close>

text \<open>
  Concrete values on which the theorems below are instantiated: an endpoint that gives
  one fixed answer, a sandbox configuration with both credentials, a configuration with
  none, two identity answers, the cache the first of them leaves when it is acquired at
  time 1000, and some errors and queries.
\<close>

definition answering :: "'a axios_result \<Rightarrow> http_request \<Rightarrow> 'a axios_result" where
  "answering r rq = r"

definition sandbox_env :: process_env where
  "sandbox_env =
     \<lparr>ENV_EBAY_API_ENV = None,
      ENV_EBAY_PRODUCTION_CLIENT_ID = None,
      ENV_EBAY_SANDBOX_CLIENT_ID = Some ''app-id'',
      ENV_EBAY_PRODUCTION_CLIENT_SECRET = None,
      ENV_EBAY_SANDBOX_CLIENT_SECRET = Some ''app-secret'',
      ENV_EBAY_MARKETPLACE_ID = None\<rparr>"

definition bare_env :: process_env where
  "bare_env =
     \<lparr>ENV_EBAY_API_ENV = None,
      ENV_EBAY_PRODUCTION_CLIENT_ID = None,
      ENV_EBAY_SANDBOX_CLIENT_ID = None,
      ENV_EBAY_PRODUCTION_CLIENT_SECRET = None,
      ENV_EBAY_SANDBOX_CLIENT_SECRET = None,
      ENV_EBAY_MARKETPLACE_ID = None\<rparr>"

definition token_A :: identity_data where
  "token_A = \<lparr>access_token = ''tokenA'', expires_in = 7200\<rparr>"

definition token_B :: identity_data where
  "token_B = \<lparr>access_token = ''tokenB'', expires_in = 7200\<rparr>"

definition cache_A :: token_cache where
  "cache_A = \<lparr>ebayToken = Some ''tokenA'', tokenExpiryTime = 7201000\<rparr>"

definition rejected_401 :: js_error where
  "rejected_401 =
     Error (Some \<lparr>resp_status = 401, resp_data = JObj [(''error'', JStr ''invalid_client'')]\<rparr>)
       ''Request failed with status code 401''"

definition unreachable_host :: js_error where
  "unreachable_host = Error None ''getaddrinfo ENOTFOUND''"






definition empty_query :: search_query where
  "empty_query = \<lparr>qry_q = None, qry_limit = None, qry_offset = None, qry_category = None\<rparr>"

definition not_found :: js_error where
  "not_found =
     Error (Some \<lparr>resp_status = 404, resp_data = JObj [(''errors'', JArr [])]\<rparr>)
       ''Request failed with status code 404''"

section \<open>Facts about \<^verbatim>\<open>getEbayToken\<close>\<close>

lemma sandbox_env_configured:
  "truthy_str (EBAY_CLIENT_ID sandbox_env) \<and> truthy_str (EBAY_CLIENT_SECRET sandbox_env)"
  by (simp add: sandbox_env_def EBAY_CLIENT_ID_def EBAY_CLIENT_SECRET_def isProduction_def
      truthy_str_def)

lemma bare_env_credentials:
  "EBAY_CLIENT_ID bare_env = None \<and> EBAY_CLIENT_SECRET bare_env = None"
  by (simp add: bare_env_def EBAY_CLIENT_ID_def EBAY_CLIENT_SECRET_def isProduction_def)

lemma getEbayToken_hit:
  assumes "ebayToken c = Some tok" and "tok \<noteq> []"
    and "tokenExpiryTime c > now + tokenBufferSeconds * 1000"
  shows "getEbayToken env idp c now = \<lparr>returned = Inr tok, cache_after = c, calls = []\<rparr>"
  using assms by (simp add: getEbayToken_def)

lemma getEbayToken_miss:
  assumes "\<not> (truthy_str (ebayToken c) \<and> tokenExpiryTime c > now + tokenBufferSeconds * 1000)"
  shows "getEbayToken env idp c now = requestNewToken env idp c now"
  using assms by (auto simp: getEbayToken_def truthy_str_def split: option.splits)

lemma requestNewToken_unconfigured:
  assumes "\<not> truthy_str (EBAY_CLIENT_ID env) \<or> \<not> truthy_str (EBAY_CLIENT_SECRET env)"
  shows "requestNewToken env idp c now =
    \<lparr>returned =
       Inl (Error None ''Credenziali eBay non configurate sul server per l'ambiente corrente.''),
     cache_after = c, calls = []\<rparr>"
  using assms by (simp add: requestNewToken_def)

lemma requestNewToken_resolved:
  assumes "truthy_str (EBAY_CLIENT_ID env)" and "truthy_str (EBAY_CLIENT_SECRET env)"
    and "idp (identity_request env) = Resolved d"
  shows "requestNewToken env idp c now =
    \<lparr>returned = Inr (access_token d),
     cache_after = \<lparr>ebayToken = Some (access_token d), tokenExpiryTime = now + expires_in d * 1000\<rparr>,
     calls = [identity_request env]\<rparr>"
  using assms by (simp add: requestNewToken_def)

lemma requestNewToken_rejected:
  assumes "truthy_str (EBAY_CLIENT_ID env)" and "truthy_str (EBAY_CLIENT_SECRET env)"
    and "idp (identity_request env) = Rejected error"
  shows "requestNewToken env idp c now =
    \<lparr>returned =
       Inl (Error None (''Impossibile ottenere il token di accesso eBay per '' @ env_label env
              @ ''. Dettagli: '' @ err_message error)),
     cache_after = \<lparr>ebayToken = None, tokenExpiryTime = 0\<rparr>,
     calls = [identity_request env]\<rparr>"
  using assms by (simp add: requestNewToken_def)

lemma requestNewToken_calls:
  "calls (requestNewToken env idp c now) =
     (if truthy_str (EBAY_CLIENT_ID env) \<and> truthy_str (EBAY_CLIENT_SECRET env)
      then [identity_request env] else [])"
  by (simp add: requestNewToken_def split: axios_result.splits)

lemma requestNewToken_failure_cache:
  assumes "returned (requestNewToken env idp c now) = Inl error"
  shows "cache_after (requestNewToken env idp c now) =
     (if truthy_str (EBAY_CLIENT_ID env) \<and> truthy_str (EBAY_CLIENT_SECRET env)
      then \<lparr>ebayToken = None, tokenExpiryTime = 0\<rparr> else c)"
  using assms by (auto simp: requestNewToken_def split: axios_result.splits)

lemma getEbayToken_cases:
  "getEbayToken env idp c now = \<lparr>returned = Inr (template_str (ebayToken c)), cache_after = c, calls = []\<rparr>
     \<and> truthy_str (ebayToken c) \<and> tokenExpiryTime c > now + tokenBufferSeconds * 1000
   \<or> getEbayToken env idp c now = requestNewToken env idp c now
     \<and> \<not> (truthy_str (ebayToken c) \<and> tokenExpiryTime c > now + tokenBufferSeconds * 1000)"
  by (auto simp: getEbayToken_def truthy_str_def template_str_def split: option.splits)

lemma getEbayToken_unconfigured_cache:
  assumes "\<not> truthy_str (EBAY_CLIENT_ID env) \<or> \<not> truthy_str (EBAY_CLIENT_SECRET env)"
  shows "cache_after (getEbayToken env idp c now) = c"
  using getEbayToken_cases [of env idp c now] requestNewToken_unconfigured [OF assms, of idp c now]
  by auto

lemma getEbayToken_error_has_no_response:
  assumes "returned (getEbayToken env idp c now) = Inl error"
  shows "err_response error = None"
  using assms getEbayToken_cases [of env idp c now]
  by (auto simp: requestNewToken_def split: if_splits axios_result.splits)

lemma acquire_A:
  "getEbayToken sandbox_env (answering (Resolved token_A)) initial_cache 1000 =
     \<lparr>returned = Inr ''tokenA'', cache_after = cache_A, calls = [identity_request sandbox_env]\<rparr>"
proof -
  have "getEbayToken sandbox_env (answering (Resolved token_A)) initial_cache 1000 =
      requestNewToken sandbox_env (answering (Resolved token_A)) initial_cache 1000"
    by (rule getEbayToken_miss) (simp add: initial_cache_def truthy_str_def)
  also have "\<dots> = \<lparr>returned = Inr ''tokenA'', cache_after = cache_A,
      calls = [identity_request sandbox_env]\<rparr>"
    using sandbox_env_configured
    by (simp add: requestNewToken_resolved [where d = token_A] answering_def token_A_def cache_A_def)
  finally show ?thesis .
qed

lemma reachable_cache_A: "reachable sandbox_env cache_A"
  using reachable_token [OF reachable_init, of sandbox_env "answering (Resolved token_A)" 1000]
  by (simp add: acquire_A)

lemma hit_A:
  "getEbayToken env idp cache_A 1000 =
     \<lparr>returned = Inr ''tokenA'', cache_after = cache_A, calls = []\<rparr>"
  by (rule getEbayToken_hit) (simp_all add: cache_A_def tokenBufferSeconds_def)

section \<open>Facts about the handlers and the reachable cache states\<close>

lemma search_handler_cache:
  "cache_after (search_handler env idp browse c now qry) = cache_after (getEbayToken env idp c now)"
  by (simp add: search_handler_def Let_def split: sum.splits axios_result.splits)

lemma item_handler_cache:
  "cache_after (item_handler env idp browse c now itemId) =
     (if truthy_str itemId then cache_after (getEbayToken env idp c now) else c)"
  by (simp add: item_handler_def Let_def split: sum.splits axios_result.splits)

lemma reachable_unconfigured:
  assumes "reachable env c"
    and "\<not> truthy_str (EBAY_CLIENT_ID env) \<or> \<not> truthy_str (EBAY_CLIENT_SECRET env)"
  shows "c = initial_cache"
  using assms
proof (induction rule: reachable.induct)
  case reachable_init
  show ?case by simp
next
  case (reachable_token c idp now)
  then show ?case by (simp add: getEbayToken_unconfigured_cache)
next
  case (reachable_search c idp browse now qry)
  then show ?case by (simp add: search_handler_cache getEbayToken_unconfigured_cache)
next
  case (reachable_item c idp browse now itemId)
  then show ?case by (simp add: item_handler_cache getEbayToken_unconfigured_cache)
qed

text \<open>
  With a credential missing no call ever fills the cache: \<open>reachable_unconfigured\<close>
  says that the cache of such a process is the empty one it started with.
\<close>

section \<open>Facts about \<^verbatim>\<open>trim\<close> and \<^verbatim>\<open>parseInt\<close>\<close>

lemma ws_seqs_heads:
  "list_all (\<lambda>t. t \<noteq> [] \<and> \<not> (48 \<le> (of_char (hd t) :: nat) \<and> (of_char (hd t) :: nat) \<le> 57)) ws_seqs"
  by code_simp

lemma ws_len_start_digit:
  assumes "48 \<le> (of_char c :: nat)" and "(of_char c :: nat) \<le> 57"
  shows "ws_len_start (c # cs) = 0"
proof -
  have "\<not> (\<exists>t. t \<in> set ws_seqs \<and> take (length t) (c # cs) = t)"
  proof
    assume "\<exists>t. t \<in> set ws_seqs \<and> take (length t) (c # cs) = t"
    then obtain t where t: "t \<in> set ws_seqs" and p: "take (length t) (c # cs) = t"
      by blast
    from t ws_seqs_heads have ne: "t \<noteq> []"
      and nd: "\<not> (48 \<le> (of_char (hd t) :: nat) \<and> (of_char (hd t) :: nat) \<le> 57)"
      by (auto simp: list_all_iff)
    from ne p have "hd t = c"
      by (cases t) auto
    with nd assms show False
      by simp
  qed
  then have "find (\<lambda>t. take (length t) (c # cs) = t) ws_seqs = None"
    by (simp add: find_None_iff)
  then show ?thesis
    by (simp add: ws_len_start_def)
qed

lemma trimStart_digit:
  assumes "48 \<le> (of_char c :: nat)" and "(of_char c :: nat) \<le> 57"
  shows "trimStart (c # cs) = c # cs"
  using ws_len_start_digit [OF assms] by simp

lemma takeWhile_decimal:
  assumes "list_all (\<lambda>c. 48 \<le> (of_char c :: nat) \<and> (of_char c :: nat) \<le> 57) s"
  shows "takeWhile (\<lambda>c. digit_val c < 10) s = s"
  using assms by (induction s) (auto simp: digit_val_def Let_def)

lemma digit_not_sign:
  assumes "48 \<le> (of_char c :: nat)"
  shows "c \<noteq> CHR ''-''" and "c \<noteq> CHR ''+''"
  using assms by auto

lemma digit_not_x:
  assumes "(of_char c :: nat) \<le> 57"
  shows "c \<noteq> CHR ''x''" and "c \<noteq> CHR ''X''"
  using assms by auto

lemma parseInt_decimal:
  assumes "is_decimal s"
  shows "parseInt s = to_binary64 (digits_value 10 s)"
proof -
  from assms obtain c cs where s: "s = c # cs"
    and c: "48 \<le> (of_char c :: nat)" "(of_char c :: nat) \<le> 57"
    and cs: "list_all (\<lambda>c. 48 \<le> (of_char c :: nat) \<and> (of_char c :: nat) \<le> 57) cs"
    by (cases s) (auto simp: is_decimal_def)
  have t: "trimStart s = s"
    unfolding s using c by (rule trimStart_digit)
  have sign: "take 1 s \<noteq> [CHR ''-'']" "take 1 s \<noteq> [CHR ''+'']"
    using digit_not_sign [OF c(1)] by (simp_all add: s)
  have nx: "\<forall>d\<in>set cs. d \<noteq> CHR ''x'' \<and> d \<noteq> CHR ''X''"
    using cs digit_not_x by (auto simp: list_all_iff)
  have hex1: "take 2 s \<noteq> [CHR ''0'', CHR ''x'']"
    using nx by (cases cs) (simp_all add: s)
  have hex2: "take 2 s \<noteq> [CHR ''0'', CHR ''X'']"
    using nx by (cases cs) (simp_all add: s)
  have tw: "takeWhile (\<lambda>c. digit_val c < 10) s = s"
    using c cs by (intro takeWhile_decimal) (simp add: s)
  have ne: "s \<noteq> []"
    by (simp add: s)
  show ?thesis
    unfolding parseInt_def Let_def t by (simp only: sign hex1 hex2 tw ne if_False simp_thms mult_1)
qed









text \<open>
  Beyond \<open>2 ^ 53\<close> the number read is rounded: \<open>2 ^ 53 + 1\<close> lies halfway between two
  binary64 numbers and goes to the even one.
\<close>

lemma bit_length_numeral:
  "bit_length (numeral (Num.Bit0 k)) = Suc (bit_length (numeral k))"
  "bit_length (numeral (Num.Bit1 k)) = Suc (bit_length (numeral k))"
  "bit_length (numeral Num.One) = 1"
  "bit_length (Suc 0) = 1"
  by (subst bit_length.simps, simp)+

lemma bit_length_tie: "bit_length 9007199254740993 = 54"
  by (simp add: bit_length_numeral)

lemma to_binary64_tie: "to_binary64 9007199254740993 = Number 9007199254740992"
  by (simp add: to_binary64_def Let_def bit_length_tie bit_length_numeral del: bit_length.simps)

lemma parseInt_rounds: "parseInt ''9007199254740993'' = Number 9007199254740992"
proof -
  have "is_decimal ''9007199254740993''"
    by (simp add: is_decimal_def)
  then have "parseInt ''9007199254740993'' = to_binary64 (digits_value 10 ''9007199254740993'')"
    by (rule parseInt_decimal)
  also have "digits_value 10 ''9007199254740993'' = 9007199254740993"
    by (simp add: digits_value_def digit_val_def)
  finally show ?thesis
    by (simp only: to_binary64_tie)
qed








lemma destructured_Inr_iff:
  "(\<exists>qry. destructured rq = Inr qry) \<longleftrightarrow> (req_q rq = None \<or> (\<exists>s. req_q rq = Some (QStr s)))"
  by (auto simp: destructured_def Let_def split: option.splits qval.splits)


lemma search_route_reachable:
  assumes "reachable env c"
  shows "reachable env (cache_after (search_route env idp browse c now rq))"
  using assms by (auto simp: search_route_def intro: reachable_search split: sum.splits)

section \<open>The claims\<close>

subsection \<open>C1: a rejected grant as the search handler reports it\<close>

text \<open>
  C1 says that when the identity endpoint rejects the grant with status 401, the search
  handler answers 401 with a body \<open>{message, details}\<close>. The program does not: the
  \<^verbatim>\<open>catch\<close> block of \<^verbatim>\<open>getEbayToken\<close> throws a new error that keeps only the message
  of the one it caught, so the handler finds no \<^verbatim>\<open>error.response\<close> and answers 500.
  The theorem runs the search handler on a fresh process with both credentials set and
  an identity endpoint that answers 401: the reply has status 500, and its details are
  the message of the new error.
\<close>

theorem search_handler_identity_401:
  "returned (search_handler sandbox_env (answering (Rejected rejected_401))
       (answering (Resolved JNull)) initial_cache 1000 empty_query) =
     \<lparr>res_status = 500,
      res_body =
        JObj [(''message'', JStr search_message),
              (''details'',
                 JStr (''Impossibile ottenere il token di accesso eBay per Sandbox. ''
                         @ ''Dettagli: Request failed with status code 401''))]\<rparr>"
proof -
  have "getEbayToken sandbox_env (answering (Rejected rejected_401)) initial_cache 1000 =
      requestNewToken sandbox_env (answering (Rejected rejected_401)) initial_cache 1000"
    by (rule getEbayToken_miss) (simp add: initial_cache_def truthy_str_def)
  also have "\<dots> =
      \<lparr>returned =
         Inl (Error None (''Impossibile ottenere il token di accesso eBay per ''
                @ env_label sandbox_env @ ''. Dettagli: '' @ err_message rejected_401)),
       cache_after = \<lparr>ebayToken = None, tokenExpiryTime = 0\<rparr>,
       calls = [identity_request sandbox_env]\<rparr>"
    using sandbox_env_configured
    by (intro requestNewToken_rejected) (simp_all add: answering_def)
  finally show ?thesis
    by (simp add: search_handler_def Let_def error_reply_def env_label_def isProduction_def
        sandbox_env_def rejected_401_def)
qed

subsection \<open>C2: the cached token is served until the buffer window opens\<close>

text \<open>
  C2, amended: if an invocation at time \<open>t0\<close> acquired the non-empty token \<open>tok\<close> from
  the identity endpoint with lifetime \<open>L\<close> seconds, then an invocation at any time \<open>t\<close>
  with \<open>t0 \<le> t < t0 + L * 1000 - 300000\<close> returns \<open>tok\<close>, leaves the cache as it is and
  makes no outbound request, whatever the identity endpoint would answer. At the
  instant \<open>t0 + L * 1000 - 300000\<close> itself the invocation asks the identity endpoint
  again. The bound is strict: line 50 compares with \<^verbatim>\<open>tokenExpiryTime > now + tokenBufferSeconds * 1000\<close>.
\<close>

theorem getEbayToken_serves_cached_token:
  assumes acquired:
      "getEbayToken env idp c0 t0 = \<lparr>returned = Inr tok, cache_after = c1, calls = [rq]\<rparr>"
    and answer: "idp rq = Resolved d"
    and lifetime: "expires_in d = L"
    and token: "tok \<noteq> []"
    and after: "t0 \<le> t"
    and before: "t < t0 + L * 1000 - tokenBufferSeconds * 1000"
  shows "getEbayToken env idp' c1 t = \<lparr>returned = Inr tok, cache_after = c1, calls = []\<rparr>
     \<and> calls (getEbayToken env idp' c1 (t0 + L * 1000 - tokenBufferSeconds * 1000)) =
         [identity_request env]"
proof -
  from acquired have new: "getEbayToken env idp c0 t0 = requestNewToken env idp c0 t0"
    using getEbayToken_cases [of env idp c0 t0] by auto
  with acquired have calls: "calls (requestNewToken env idp c0 t0) = [rq]"
    by simp
  then have conf: "truthy_str (EBAY_CLIENT_ID env)" "truthy_str (EBAY_CLIENT_SECRET env)"
    and rq: "rq = identity_request env"
    by (auto simp: requestNewToken_calls split: if_splits)
  from answer rq have "idp (identity_request env) = Resolved d"
    by simp
  with conf have "requestNewToken env idp c0 t0 =
      \<lparr>returned = Inr (access_token d),
       cache_after = \<lparr>ebayToken = Some (access_token d),
                        tokenExpiryTime = t0 + expires_in d * 1000\<rparr>,
       calls = [identity_request env]\<rparr>"
    by (rule requestNewToken_resolved)
  with new acquired lifetime
  have "tok = access_token d"
    and c1: "c1 = \<lparr>ebayToken = Some tok, tokenExpiryTime = t0 + L * 1000\<rparr>"
    by auto
  from c1 token before
  have served: "getEbayToken env idp' c1 t = \<lparr>returned = Inr tok, cache_after = c1, calls = []\<rparr>"
    by (intro getEbayToken_hit) auto
  have "getEbayToken env idp' c1 (t0 + L * 1000 - tokenBufferSeconds * 1000) =
      requestNewToken env idp' c1 (t0 + L * 1000 - tokenBufferSeconds * 1000)"
    by (rule getEbayToken_miss) (simp add: c1)
  with conf
  have "calls (getEbayToken env idp' c1 (t0 + L * 1000 - tokenBufferSeconds * 1000)) =
      [identity_request env]"
    by (simp add: requestNewToken_calls)
  with served show ?thesis
    by simp
qed

theorem getEbayToken_serves_cached_token_witness:
  "getEbayToken sandbox_env (answering (Resolved token_A)) initial_cache 1000 =
     \<lparr>returned = Inr ''tokenA'', cache_after = cache_A, calls = [identity_request sandbox_env]\<rparr>
   \<and> answering (Resolved token_A) (identity_request sandbox_env) = Resolved token_A
   \<and> expires_in token_A = 7200
   \<and> ''tokenA'' \<noteq> []
   \<and> (1000::int) \<le> 6900999
   \<and> (6900999::int) < 1000 + 7200 * 1000 - tokenBufferSeconds * 1000
   \<and> getEbayToken sandbox_env (answering (Rejected unreachable_host)) cache_A 6900999 =
       \<lparr>returned = Inr ''tokenA'', cache_after = cache_A, calls = []\<rparr>
   \<and> calls (getEbayToken sandbox_env (answering (Rejected unreachable_host)) cache_A 6901000) =
       [identity_request sandbox_env]"
proof -
  have h1: "answering (Resolved token_A) (identity_request sandbox_env) = Resolved token_A"
    by (simp add: answering_def)
  have h2: "expires_in token_A = 7200"
    by (simp add: token_A_def)
  have h3: "''tokenA'' \<noteq> []" by simp
  have h4: "(1000::int) \<le> 6900999" by simp
  have h5: "(6900999::int) < 1000 + 7200 * 1000 - tokenBufferSeconds * 1000"
    by (simp add: tokenBufferSeconds_def)
  show ?thesis
    using getEbayToken_serves_cached_token [OF acquire_A h1 h2 h3 h4 h5,
        of "answering (Rejected unreachable_host)"] acquire_A h1 h2 h5
    by (simp add: tokenBufferSeconds_def)
qed

text \<open>
  C2 as stated includes the instant \<open>t = t0 + L * 1000 - 300000\<close>. There the comparison
  of line 50 is false: with the token acquired at 1000 for 7200 seconds, the invocation
  at 6901000 asks the identity endpoint again and does not return the cached token.
\<close>

theorem getEbayToken_boundary_counterexample:
  "cache_after (getEbayToken sandbox_env (answering (Resolved token_A)) initial_cache 1000) = cache_A
   \<and> expires_in token_A = 7200
   \<and> (1000::int) \<le> 6901000
   \<and> (6901000::int) \<le> 1000 + 7200 * 1000 - tokenBufferSeconds * 1000
   \<and> calls (getEbayToken sandbox_env (answering (Resolved token_B)) cache_A 6901000)
       = [identity_request sandbox_env]
   \<and> \<not> (returned (getEbayToken sandbox_env (answering (Resolved token_B)) cache_A 6901000)
           = Inr ''tokenA''
        \<and> calls (getEbayToken sandbox_env (answering (Resolved token_B)) cache_A 6901000) = [])"
proof -
  have "getEbayToken sandbox_env (answering (Resolved token_B)) cache_A 6901000 =
      requestNewToken sandbox_env (answering (Resolved token_B)) cache_A 6901000"
    by (rule getEbayToken_miss) (simp add: cache_A_def tokenBufferSeconds_def)
  then have "calls (getEbayToken sandbox_env (answering (Resolved token_B)) cache_A 6901000)
      = [identity_request sandbox_env]"
    using sandbox_env_configured by (simp add: requestNewToken_calls)
  moreover have "expires_in token_A = 7200"
    by (simp add: token_A_def)
  ultimately show ?thesis
    by (simp add: acquire_A tokenBufferSeconds_def)
qed

subsection \<open>C3: a failed invocation leaves the cache empty\<close>

text \<open>
  C3: in every cache state a process can reach, an invocation of \<^verbatim>\<open>getEbayToken\<close> that
  fails leaves \<^verbatim>\<open>ebayToken\<close> absent and \<^verbatim>\<open>tokenExpiryTime\<close> zero. When the identity request
  fails the \<^verbatim>\<open>catch\<close> block resets both; when a credential is missing the cache is not
  written, and it is empty because no earlier invocation of that process could fill it.
\<close>

theorem failed_getEbayToken_leaves_cache_empty:
  assumes "reachable env c"
    and "returned (getEbayToken env idp c now) = Inl error"
  shows "cache_after (getEbayToken env idp c now) = \<lparr>ebayToken = None, tokenExpiryTime = 0\<rparr>"
proof -
  from assms(2) have new: "getEbayToken env idp c now = requestNewToken env idp c now"
    using getEbayToken_cases [of env idp c now] by auto
  with assms(2) have failed: "returned (requestNewToken env idp c now) = Inl error"
    by simp
  show ?thesis
  proof (cases "truthy_str (EBAY_CLIENT_ID env) \<and> truthy_str (EBAY_CLIENT_SECRET env)")
    case True
    with requestNewToken_failure_cache [OF failed] new show ?thesis
      by simp
  next
    case False
    then have "c = initial_cache"
      using reachable_unconfigured [OF assms(1)] by blast
    with False requestNewToken_failure_cache [OF failed] new show ?thesis
      by (simp add: initial_cache_def)
  qed
qed

theorem failed_getEbayToken_leaves_cache_empty_witness:
  "reachable sandbox_env cache_A
   \<and> returned (getEbayToken sandbox_env (answering (Rejected rejected_401)) cache_A 8000000) =
       Inl (Error None (''Impossibile ottenere il token di accesso eBay per Sandbox. ''
                          @ ''Dettagli: Request failed with status code 401''))
   \<and> cache_after (getEbayToken sandbox_env (answering (Rejected rejected_401)) cache_A 8000000) =
       \<lparr>ebayToken = None, tokenExpiryTime = 0\<rparr>
   \<and> reachable bare_env initial_cache
   \<and> returned (getEbayToken bare_env (answering (Resolved token_A)) initial_cache 1000) =
       Inl (Error None ''Credenziali eBay non configurate sul server per l'ambiente corrente.'')
   \<and> cache_after (getEbayToken bare_env (answering (Resolved token_A)) initial_cache 1000) =
       \<lparr>ebayToken = None, tokenExpiryTime = 0\<rparr>"
proof -
  have "getEbayToken sandbox_env (answering (Rejected rejected_401)) cache_A 8000000 =
      requestNewToken sandbox_env (answering (Rejected rejected_401)) cache_A 8000000"
    by (rule getEbayToken_miss) (simp add: cache_A_def tokenBufferSeconds_def)
  then have r1: "returned (getEbayToken sandbox_env (answering (Rejected rejected_401)) cache_A 8000000) =
       Inl (Error None (''Impossibile ottenere il token di accesso eBay per Sandbox. ''
                          @ ''Dettagli: Request failed with status code 401''))"
    using sandbox_env_configured
    by (simp add: requestNewToken_rejected [where error = rejected_401] answering_def
        rejected_401_def env_label_def isProduction_def sandbox_env_def)
  have "getEbayToken bare_env (answering (Resolved token_A)) initial_cache 1000 =
      requestNewToken bare_env (answering (Resolved token_A)) initial_cache 1000"
    by (rule getEbayToken_miss) (simp add: initial_cache_def truthy_str_def)
  then have r2: "returned (getEbayToken bare_env (answering (Resolved token_A)) initial_cache 1000) =
       Inl (Error None ''Credenziali eBay non configurate sul server per l'ambiente corrente.'')"
    using bare_env_credentials by (simp add: requestNewToken_unconfigured truthy_str_def)
  show ?thesis
    using failed_getEbayToken_leaves_cache_empty [OF reachable_cache_A r1]
      failed_getEbayToken_leaves_cache_empty [OF reachable_init r2]
      reachable_cache_A reachable_init [of bare_env] r1 r2
    by simp
qed

subsection \<open>C4: a stale or empty cache costs exactly one identity request\<close>

text \<open>
  C4: with both credentials configured, an invocation at a time \<open>t\<close> later than
  \<open>t0 + L * 1000 - 300000\<close>, where \<open>t0 + L * 1000\<close> is the expiry held, or on a cache with
  no token, makes exactly one outbound request, the one to the identity endpoint; when
  that request succeeds the invocation returns the token of the answer and the new
  expiry is \<open>t\<close> plus the answer's lifetime. Every invocation makes at most one
  outbound request, and none when the cache check of line 50 succeeds.
\<close>

theorem getEbayToken_refreshes_once:
  assumes "truthy_str (EBAY_CLIENT_ID env)" and "truthy_str (EBAY_CLIENT_SECRET env)"
    and "ebayToken c = None
         \<or> tokenExpiryTime c = t0 + L * 1000 \<and> t > t0 + L * 1000 - tokenBufferSeconds * 1000"
  shows "calls (getEbayToken env idp c t) = [identity_request env]
     \<and> rq_url (identity_request env) = EBAY_IDENTITY_URL env
     \<and> (\<forall>d. idp (identity_request env) = Resolved d \<longrightarrow>
           returned (getEbayToken env idp c t) = Inr (access_token d)
           \<and> cache_after (getEbayToken env idp c t) =
               \<lparr>ebayToken = Some (access_token d), tokenExpiryTime = t + expires_in d * 1000\<rparr>)
     \<and> length (calls (getEbayToken env' idp' c' t')) \<le> 1
     \<and> (calls (getEbayToken env' idp' c' t') \<noteq> [] \<longrightarrow>
           \<not> (truthy_str (ebayToken c') \<and> tokenExpiryTime c' > t' + tokenBufferSeconds * 1000))"
proof -
  from assms(3)
  have "\<not> (truthy_str (ebayToken c) \<and> tokenExpiryTime c > t + tokenBufferSeconds * 1000)"
    by (auto simp: truthy_str_def)
  then have new: "getEbayToken env idp c t = requestNewToken env idp c t"
    by (rule getEbayToken_miss)
  have one: "calls (getEbayToken env idp c t) = [identity_request env]"
    using assms(1,2) by (simp add: new requestNewToken_calls)
  have url: "rq_url (identity_request env) = EBAY_IDENTITY_URL env"
    by (simp add: identity_request_def Let_def)
  have fresh: "\<forall>d. idp (identity_request env) = Resolved d \<longrightarrow>
           returned (getEbayToken env idp c t) = Inr (access_token d)
           \<and> cache_after (getEbayToken env idp c t) =
               \<lparr>ebayToken = Some (access_token d), tokenExpiryTime = t + expires_in d * 1000\<rparr>"
    using assms(1,2) by (simp add: new requestNewToken_resolved)
  have most: "length (calls (getEbayToken env' idp' c' t')) \<le> 1"
    using getEbayToken_cases [of env' idp' c' t'] by (auto simp: requestNewToken_calls)
  have only: "calls (getEbayToken env' idp' c' t') \<noteq> [] \<longrightarrow>
           \<not> (truthy_str (ebayToken c') \<and> tokenExpiryTime c' > t' + tokenBufferSeconds * 1000)"
    using getEbayToken_cases [of env' idp' c' t'] by auto
  from one url fresh most only show ?thesis
    by blast
qed

theorem getEbayToken_refreshes_once_witness:
  "truthy_str (EBAY_CLIENT_ID sandbox_env) \<and> truthy_str (EBAY_CLIENT_SECRET sandbox_env)
   \<and> tokenExpiryTime cache_A = 1000 + 7200 * 1000
   \<and> (6901001::int) > 1000 + 7200 * 1000 - tokenBufferSeconds * 1000
   \<and> answering (Resolved token_B) (identity_request sandbox_env) = Resolved token_B
   \<and> calls (getEbayToken sandbox_env (answering (Resolved token_B)) cache_A 6901001) =
       [identity_request sandbox_env]
   \<and> returned (getEbayToken sandbox_env (answering (Resolved token_B)) cache_A 6901001) =
       Inr ''tokenB''
   \<and> cache_after (getEbayToken sandbox_env (answering (Resolved token_B)) cache_A 6901001) =
       \<lparr>ebayToken = Some ''tokenB'', tokenExpiryTime = 14101001\<rparr>
   \<and> length (calls (getEbayToken sandbox_env (answering (Resolved token_B)) cache_A 6901001)) \<le> 1
   \<and> \<not> (truthy_str (ebayToken cache_A)
         \<and> tokenExpiryTime cache_A > 6901001 + tokenBufferSeconds * 1000)"
proof -
  have h3: "ebayToken cache_A = None
      \<or> tokenExpiryTime cache_A = 1000 + 7200 * 1000
        \<and> (6901001::int) > 1000 + 7200 * 1000 - tokenBufferSeconds * 1000"
    by (simp add: cache_A_def tokenBufferSeconds_def)
  have h4: "answering (Resolved token_B) (identity_request sandbox_env) = Resolved token_B"
    by (simp add: answering_def)
  show ?thesis
    using getEbayToken_refreshes_once [OF conjunct1 [OF sandbox_env_configured]
        conjunct2 [OF sandbox_env_configured] h3,
        of "answering (Resolved token_B)" sandbox_env "answering (Resolved token_B)" cache_A 6901001]
      sandbox_env_configured h3 h4
    by (simp add: token_B_def cache_A_def)
qed

subsection \<open>C5: missing credentials\<close>

text \<open>
  C5: when the client id or the client secret of the active environment is absent or
  empty, an invocation whose cache check fails throws the missing-credentials error
  and makes no outbound request.
\<close>

theorem getEbayToken_missing_credentials:
  assumes "EBAY_CLIENT_ID env = None \<or> EBAY_CLIENT_ID env = Some []
         \<or> EBAY_CLIENT_SECRET env = None \<or> EBAY_CLIENT_SECRET env = Some []"
    and "\<not> (truthy_str (ebayToken c) \<and> tokenExpiryTime c > now + tokenBufferSeconds * 1000)"
  shows "returned (getEbayToken env idp c now) =
       Inl (Error None ''Credenziali eBay non configurate sul server per l'ambiente corrente.'')
     \<and> calls (getEbayToken env idp c now) = []"
proof -
  from assms(1)
  have "\<not> truthy_str (EBAY_CLIENT_ID env) \<or> \<not> truthy_str (EBAY_CLIENT_SECRET env)"
    by (auto simp: truthy_str_def)
  then show ?thesis
    by (simp add: getEbayToken_miss [OF assms(2)] requestNewToken_unconfigured)
qed

theorem getEbayToken_missing_credentials_witness:
  "EBAY_CLIENT_ID bare_env = None
   \<and> \<not> (truthy_str (ebayToken initial_cache)
         \<and> tokenExpiryTime initial_cache > 1000 + tokenBufferSeconds * 1000)
   \<and> returned (getEbayToken bare_env (answering (Resolved token_A)) initial_cache 1000) =
       Inl (Error None ''Credenziali eBay non configurate sul server per l'ambiente corrente.'')
   \<and> calls (getEbayToken bare_env (answering (Resolved token_A)) initial_cache 1000) = []"
proof -
  have h1: "EBAY_CLIENT_ID bare_env = None \<or> EBAY_CLIENT_ID bare_env = Some []
         \<or> EBAY_CLIENT_SECRET bare_env = None \<or> EBAY_CLIENT_SECRET bare_env = Some []"
    using bare_env_credentials by simp
  have h2: "\<not> (truthy_str (ebayToken initial_cache)
         \<and> tokenExpiryTime initial_cache > 1000 + tokenBufferSeconds * 1000)"
    by (simp add: initial_cache_def truthy_str_def)
  show ?thesis
    using getEbayToken_missing_credentials [OF h1 h2, of "answering (Resolved token_A)"]
      bare_env_credentials h2
    by simp
qed

subsection \<open>C6: the item handler without an item id\<close>

text \<open>
  C6: with an absent or empty \<^verbatim>\<open>itemId\<close> the item handler answers 400 with an
  \<^verbatim>\<open>error\<close> body, makes no outbound request and leaves the cache as it is, whatever
  the configuration, the cache, the time and the endpoints are: \<^verbatim>\<open>getEbayToken\<close> is
  not invoked.
\<close>

theorem item_handler_missing_itemId:
  assumes "itemId = None \<or> itemId = Some []"
  shows "item_handler env idp browse c now itemId =
     \<lparr>returned =
        \<lparr>res_status = 400,
         res_body = JObj [(''error'', JStr ''eBay Item ID mancante nell'URL.'')]\<rparr>,
      cache_after = c, calls = []\<rparr>"
  using assms by (auto simp: item_handler_def truthy_str_def)

theorem item_handler_missing_itemId_witness:
  "item_handler sandbox_env (answering (Resolved token_A)) (answering (Resolved JNull))
       initial_cache 1000 (Some []) =
     \<lparr>returned =
        \<lparr>res_status = 400,
         res_body = JObj [(''error'', JStr ''eBay Item ID mancante nell'URL.'')]\<rparr>,
      cache_after = initial_cache, calls = []\<rparr>"
proof -
  have h: "Some [] = None \<or> Some ([]::string) = Some []"
    by simp
  show ?thesis
    using item_handler_missing_itemId [OF h, of sandbox_env "answering (Resolved token_A)"
        "answering (Resolved JNull)" initial_cache 1000]
    by simp
qed

subsection \<open>C7: the parameters of a search\<close>




subsection \<open>C8: what a successful acquisition stores\<close>

text \<open>
  C8: when the cache check fails, both credentials are configured and the identity
  endpoint answers with a token and a lifetime, the invocation at time \<open>now\<close> returns
  that token, stores it, and sets the expiry to \<open>now + expires_in * 1000\<close>.
\<close>

theorem getEbayToken_stores_acquired_token:
  assumes "truthy_str (EBAY_CLIENT_ID env)" and "truthy_str (EBAY_CLIENT_SECRET env)"
    and "\<not> (truthy_str (ebayToken c) \<and> tokenExpiryTime c > now + tokenBufferSeconds * 1000)"
    and "idp (identity_request env) = Resolved d"
  shows "returned (getEbayToken env idp c now) = Inr (access_token d)
     \<and> ebayToken (cache_after (getEbayToken env idp c now)) = Some (access_token d)
     \<and> tokenExpiryTime (cache_after (getEbayToken env idp c now)) = now + expires_in d * 1000"
  using assms(1,2,4) by (simp add: getEbayToken_miss [OF assms(3)] requestNewToken_resolved)

theorem getEbayToken_stores_acquired_token_witness:
  "truthy_str (EBAY_CLIENT_ID sandbox_env) \<and> truthy_str (EBAY_CLIENT_SECRET sandbox_env)
   \<and> \<not> (truthy_str (ebayToken initial_cache)
         \<and> tokenExpiryTime initial_cache > 1000 + tokenBufferSeconds * 1000)
   \<and> answering (Resolved token_A) (identity_request sandbox_env) = Resolved token_A
   \<and> returned (getEbayToken sandbox_env (answering (Resolved token_A)) initial_cache 1000) =
       Inr ''tokenA''
   \<and> ebayToken (cache_after
         (getEbayToken sandbox_env (answering (Resolved token_A)) initial_cache 1000)) =
       Some ''tokenA''
   \<and> tokenExpiryTime (cache_after
         (getEbayToken sandbox_env (answering (Resolved token_A)) initial_cache 1000)) =
       7201000"
proof -
  have h3: "\<not> (truthy_str (ebayToken initial_cache)
         \<and> tokenExpiryTime initial_cache > 1000 + tokenBufferSeconds * 1000)"
    by (simp add: initial_cache_def truthy_str_def)
  have h4: "answering (Resolved token_A) (identity_request sandbox_env) = Resolved token_A"
    by (simp add: answering_def)
  show ?thesis
    using getEbayToken_stores_acquired_token [where idp = "answering (Resolved token_A)"
        and d = token_A, OF conjunct1 [OF sandbox_env_configured]
        conjunct2 [OF sandbox_env_configured] h3 h4]
      sandbox_env_configured h3 h4
    by (simp add: token_A_def)
qed

subsection \<open>C9: a failed marketplace call\<close>

text \<open>
  C9: when the token is obtained and the call to the marketplace is rejected, both
  handlers answer with the status of the upstream response (an HTTP status, so at least
  100) when there is one and with 500 when there is none; the body holds the handler's
  generic message and, as details, the upstream payload when there is a response with a
  truthy payload, and the message of the error otherwise.
\<close>

theorem handlers_relay_upstream_failure:
  assumes "returned (getEbayToken env idp c now) = Inr token"
    and "err_response error = None \<or> (\<exists>r. err_response error = Some r \<and> 100 \<le> resp_status r)"
  shows "(browse (search_request env token (make_searchParams qry)) = Rejected error \<longrightarrow>
            returned (search_handler env idp browse c now qry) =
              \<lparr>res_status =
                 (case err_response error of None \<Rightarrow> 500 | Some r \<Rightarrow> resp_status r),
               res_body =
                 JObj [(''message'', JStr search_message),
                       (''details'',
                          (case err_response error of
                             None \<Rightarrow> JStr (err_message error)
                           | Some r \<Rightarrow> if truthy (resp_data r) then resp_data r
                                       else JStr (err_message error)))]\<rparr>)
       \<and> (itemId \<noteq> [] \<and> browse (item_request env token itemId) = Rejected error \<longrightarrow>
            returned (item_handler env idp browse c now (Some itemId)) =
              \<lparr>res_status =
                 (case err_response error of None \<Rightarrow> 500 | Some r \<Rightarrow> resp_status r),
               res_body =
                 JObj [(''message'', JStr item_message),
                       (''details'',
                          (case err_response error of
                             None \<Rightarrow> JStr (err_message error)
                           | Some r \<Rightarrow> if truthy (resp_data r) then resp_data r
                                       else JStr (err_message error)))]\<rparr>)"
proof -
  have reply: "error_reply msg error =
      \<lparr>res_status = (case err_response error of None \<Rightarrow> 500 | Some r \<Rightarrow> resp_status r),
       res_body =
         JObj [(''message'', JStr msg),
               (''details'',
                  (case err_response error of
                     None \<Rightarrow> JStr (err_message error)
                   | Some r \<Rightarrow> if truthy (resp_data r) then resp_data r
                               else JStr (err_message error)))]\<rparr>" for msg
    using assms(2) by (auto simp: error_reply_def)
  have search: "browse (search_request env token (make_searchParams qry)) = Rejected error \<longrightarrow>
      returned (search_handler env idp browse c now qry) = error_reply search_message error"
    using assms(1) by (simp add: search_handler_def Let_def)
  have item: "itemId \<noteq> [] \<and> browse (item_request env token itemId) = Rejected error \<longrightarrow>
      returned (item_handler env idp browse c now (Some itemId)) = error_reply item_message error"
    using assms(1) by (simp add: item_handler_def Let_def truthy_str_def template_str_def)
  from search item show ?thesis
    unfolding reply by blast
qed

theorem handlers_relay_upstream_failure_witness:
  "returned (getEbayToken sandbox_env (answering (Rejected unreachable_host)) cache_A 1000) =
     Inr ''tokenA''
   \<and> err_response not_found =
       Some \<lparr>resp_status = 404, resp_data = JObj [(''errors'', JArr [])]\<rparr>
   \<and> returned (search_handler sandbox_env (answering (Rejected unreachable_host))
         (answering (Rejected not_found)) cache_A 1000 empty_query) =
       \<lparr>res_status = 404,
        res_body = JObj [(''message'', JStr search_message),
                         (''details'', JObj [(''errors'', JArr [])])]\<rparr>
   \<and> returned (item_handler sandbox_env (answering (Rejected unreachable_host))
         (answering (Rejected not_found)) cache_A 1000 (Some ''v1|110|0'')) =
       \<lparr>res_status = 404,
        res_body = JObj [(''message'', JStr item_message),
                         (''details'', JObj [(''errors'', JArr [])])]\<rparr>
   \<and> err_response unreachable_host = None
   \<and> returned (search_handler sandbox_env (answering (Rejected unreachable_host))
         (answering (Rejected unreachable_host)) cache_A 1000 empty_query) =
       \<lparr>res_status = 500,
        res_body = JObj [(''message'', JStr search_message),
                         (''details'', JStr ''getaddrinfo ENOTFOUND'')]\<rparr>"
proof -
  have h1: "returned (getEbayToken sandbox_env (answering (Rejected unreachable_host)) cache_A 1000) =
     Inr ''tokenA''"
    by (simp add: hit_A)
  have h2: "err_response not_found = None
      \<or> (\<exists>r. err_response not_found = Some r \<and> 100 \<le> resp_status r)"
    by (simp add: not_found_def)
  have h3: "err_response unreachable_host = None
      \<or> (\<exists>r. err_response unreachable_host = Some r \<and> 100 \<le> resp_status r)"
    by (simp add: unreachable_host_def)
  show ?thesis
    using handlers_relay_upstream_failure [OF h1 h2, of "answering (Rejected not_found)"
        empty_query "''v1|110|0''"]
      handlers_relay_upstream_failure [OF h1 h3, of "answering (Rejected unreachable_host)"
        empty_query "''v1|110|0''"]
      h1
    by (simp add: answering_def not_found_def unreachable_host_def)
qed

subsection \<open>C10: a fresh cached token needs no credentials\<close>

text \<open>
  C10: in every state where the cache holds a non-empty token whose expiry is later than
  \<open>now + 300000\<close>, the invocation returns that token, whatever the configuration is,
  so also with both credentials absent: line 50 returns before line 58 looks at them.
\<close>

theorem getEbayToken_hit_ignores_credentials:
  assumes "ebayToken c = Some tok" and "tok \<noteq> []"
    and "tokenExpiryTime c > now + tokenBufferSeconds * 1000"
  shows "getEbayToken env idp c now = \<lparr>returned = Inr tok, cache_after = c, calls = []\<rparr>"
  using assms by (rule getEbayToken_hit)

theorem getEbayToken_hit_ignores_credentials_witness:
  "EBAY_CLIENT_ID bare_env = None \<and> EBAY_CLIENT_SECRET bare_env = None
   \<and> ebayToken cache_A = Some ''tokenA''
   \<and> tokenExpiryTime cache_A > 1000 + tokenBufferSeconds * 1000
   \<and> getEbayToken bare_env (answering (Rejected unreachable_host)) cache_A 1000 =
       \<lparr>returned = Inr ''tokenA'', cache_after = cache_A, calls = []\<rparr>"
proof -
  have h1: "ebayToken cache_A = Some ''tokenA''"
    by (simp add: cache_A_def)
  have h2: "''tokenA'' \<noteq> []"
    by simp
  have h3: "tokenExpiryTime cache_A > 1000 + tokenBufferSeconds * 1000"
    by (simp add: cache_A_def tokenBufferSeconds_def)
  show ?thesis
    using getEbayToken_hit_ignores_credentials [OF h1 h2 h3, of bare_env
        "answering (Rejected unreachable_host)"] bare_env_credentials h1 h3
    by simp
qed

end
